theory Spec2Isabelle
  imports Main "HOL-Library.Word"
begin

section \<open>Cross-silo RPC layer of \<open>sentry.services.hybrid_cloud.rpc\<close>\<close>

text \<open>
  The development embeds \<open>src/sentry/services/hybrid_cloud/rpc.py\<close>. Python \<open>str\<close> values
  are HOL strings (a character stands for a code point below 256), \<open>bytes\<close> values are lists
  of 8-bit words, exceptions are the left summand of a sum type, and everything the module
  takes from outside the repository (the HMAC primitive of the standard library, Pydantic,
  the URL resolver, the JSON encoder, the HTTP client) is a parameter: the MAC is an
  argument of the two authenticator functions, the rest is carried by the environment
  record. The local side (\<open>dispatch_to_local_service\<close>,
  \<open>_get_and_validate_local_implementation\<close>) runs service code that the module does not
  contain and is not embedded.
\<close>

subsection \<open>Strings and bytes\<close>

type_synonym bytes = "8 word list"

text \<open>\<open>str.encode("utf8")\<close> on code points below 256: one byte below 128, two bytes above.\<close>

definition utf8_char :: "char \<Rightarrow> bytes" where
  "utf8_char c =
     (let n = (of_char c :: nat)
      in if n < 128 then [of_nat n]
         else [of_nat (192 + n div 64), of_nat (128 + n mod 64)])"

definition encode_utf8 :: "string \<Rightarrow> bytes" where
  "encode_utf8 s = concat (map utf8_char s)"

text \<open>\<open>bytes.hex()\<close>, as used by \<open>HMAC.hexdigest\<close>: two lowercase digits per byte.\<close>

definition hexdigit :: "nat \<Rightarrow> char" where
  "hexdigit n = ''0123456789abcdef'' ! (n mod 16)"

definition hex_byte :: "8 word \<Rightarrow> string" where
  "hex_byte w = [hexdigit (unat w div 16), hexdigit (unat w mod 16)]"

definition hexdigest :: "bytes \<Rightarrow> string" where
  "hexdigest bs = concat (map hex_byte bs)"

text \<open>\<open>str.startswith(prefix)\<close>.\<close>

definition startswith :: "string \<Rightarrow> string \<Rightarrow> bool" where
  "startswith s p = (take (length p) s = p)"

text \<open>
  \<open>str.split(sep, maxsplit)\<close> for a one-character separator: at most \<open>maxsplit\<close> cuts,
  from the left, so at most \<open>maxsplit + 1\<close> parts.
\<close>

fun cut_at :: "char \<Rightarrow> string \<Rightarrow> (string \<times> string) option" where
  "cut_at c [] = None"
| "cut_at c (x # xs) =
     (if x = c then Some ([], xs)
      else (case cut_at c xs of None \<Rightarrow> None | Some (a, b) \<Rightarrow> Some (x # a, b)))"

fun split_max :: "char \<Rightarrow> nat \<Rightarrow> string \<Rightarrow> string list" where
  "split_max c 0 s = [s]"
| "split_max c (Suc n) s =
     (case cut_at c s of None \<Rightarrow> [s] | Some (a, b) \<Rightarrow> a # split_max c n b)"

subsection \<open>Exceptions\<close>

text \<open>An exception is identified by its class; message texts are not modelled.\<close>

datatype exn =
    RpcServiceSetupException
  | RpcServiceUnimplementedException
  | RpcResolutionException
  | RpcArgumentException
  | RpcRemoteException
  | RpcResponseException
  | RpcAuthenticationSetupException
  | RegionMappingNotFound
  | ValueError
  | KeyError
  | TypeError
  | AttributeError
  | OtherException string

subsection \<open>Settings and the request authenticator\<close>

text \<open>
  \<open>django.conf.settings\<close>: the shared secrets (\<open>None\<close> when unset) and the control silo
  address. \<open>hmac_sha256 key msg\<close> stands for \<open>hmac.new(key, msg, hashlib.sha256).digest()\<close>.
\<close>

record settings =
  RPC_SHARED_SECRET :: "string list option"
  SENTRY_CONTROL_ADDRESS :: "string option"

type_synonym mac = "bytes \<Rightarrow> bytes \<Rightarrow> bytes"

text \<open>\<open>not settings.RPC_SHARED_SECRET\<close>: unset or empty.\<close>

definition secrets_missing :: "settings \<Rightarrow> bool" where
  "secrets_missing st = (case RPC_SHARED_SECRET st of None \<Rightarrow> True | Some ks \<Rightarrow> ks = [])"

text \<open>\<open>b"%s:%s" % (url.encode("utf8"), body)\<close>.\<close>

definition signature_input :: "string \<Rightarrow> bytes \<Rightarrow> bytes" where
  "signature_input url body = encode_utf8 url @ [0x3A] @ body"

text \<open>
  The loop of \<open>compare_signature\<close> over the configured keys; \<open>hmac.compare_digest\<close> on two
  byte strings is their equality.
\<close>

fun any_key_matches :: "mac \<Rightarrow> bytes \<Rightarrow> string \<Rightarrow> string list \<Rightarrow> bool" where
  "any_key_matches H inp signature_data [] = False"
| "any_key_matches H inp signature_data (key # keys) =
     (let computed = hexdigest (H (encode_utf8 key) inp);
          is_valid = (encode_utf8 computed = encode_utf8 signature_data)
      in if is_valid then True else any_key_matches H inp signature_data keys)"

definition compare_signature :: "mac \<Rightarrow> settings \<Rightarrow> string \<Rightarrow> bytes \<Rightarrow> string \<Rightarrow> exn + bool" where
  "compare_signature H st url body signature =
     (if secrets_missing st then Inl RpcAuthenticationSetupException
      else if \<not> startswith signature ''rpc0:'' then Inr False
      else (case split_max CHR '':'' 2 signature of
              [_, signature_data] \<Rightarrow>
                Inr (any_key_matches H (signature_input url body) signature_data
                       (the (RPC_SHARED_SECRET st)))
            | _ \<Rightarrow> Inl ValueError))"

definition generate_request_signature :: "mac \<Rightarrow> settings \<Rightarrow> string \<Rightarrow> bytes \<Rightarrow> exn + string" where
  "generate_request_signature H st url_path body =
     (if secrets_missing st then Inl RpcAuthenticationSetupException
      else (let secret = hd (the (RPC_SHARED_SECRET st));
                signature = hexdigest (H (encode_utf8 secret) (signature_input url_path body))
            in Inr (''rpc0:'' @ signature)))"

text \<open>
  The tag the specification describes for a secret \<open>s\<close>: the version token followed by the
  lowercase hexadecimal HMAC-SHA256 of \<open>path + ":" + body\<close> under \<open>s\<close>.
\<close>

definition spec_tag :: "mac \<Rightarrow> string \<Rightarrow> string \<Rightarrow> bytes \<Rightarrow> string" where
  "spec_tag H s path body =
     ''rpc0:'' @ hexdigest (H (encode_utf8 s) (encode_utf8 path @ encode_utf8 '':'' @ body))"

text \<open>A fixed stand-in for the MAC primitive, used only to evaluate examples.\<close>

definition sample_mac :: mac where
  "sample_mac key msg = rev key @ take 4 msg"

definition sample_settings :: settings where
  "sample_settings =
     \<lparr>RPC_SHARED_SECRET = Some [''new'', ''old''],
      SENTRY_CONTROL_ADDRESS = Some ''http://control.internal''\<rparr>"

definition sample_body :: bytes where
  "sample_body = encode_utf8 ''{\"args\":{}}''"

subsection \<open>Values, silo modes, regions\<close>

text \<open>
  Values that cross the wire (\<open>Any\<close> in the source) are JSON values; \<open>None\<close> is \<open>JNull\<close>.
  An \<open>ArgumentDict\<close> is a dictionary from parameter names to values.
\<close>

datatype json =
    JNull
  | JBool bool
  | JInt int
  | JStr string
  | JList "json list"
  | JDict "(string \<times> json) list"

type_synonym ArgumentDict = "(string \<times> json) list"

text \<open>\<open>obj[key]\<close> with a string key: only a dictionary that has the key answers.\<close>

fun subscript :: "json \<Rightarrow> string \<Rightarrow> exn + json" where
  "subscript (JDict kvs) k = (case map_of kvs k of None \<Rightarrow> Inl KeyError | Some v \<Rightarrow> Inr v)"
| "subscript _ k = Inl TypeError"

text \<open>
  \<open>sentry.silo.SiloMode\<close> and \<open>sentry.types.region.Region\<close> are declared outside the
  module; the enumeration has the three members the module mentions or iterates over, and
  of a region the module reads the name and the address.
\<close>

datatype SiloMode = MONOLITH | CONTROL | REGION

definition all_silo_modes :: "SiloMode list" where
  "all_silo_modes = [MONOLITH, CONTROL, REGION]"

record Region =
  region_name :: string
  region_address :: "string option"

subsection \<open>Declarations: type tokens, methods, service classes\<close>

text \<open>
  What \<open>inspect.signature\<close> reports as an annotation: nothing (\<open>Empty\<close>), the constant
  \<open>None\<close>, a string, a class, or a parameterised type whose arguments may hide a
  forward reference (\<open>Optional["RpcThing"]\<close> holds \<open>ForwardRef "RpcThing"\<close>).
\<close>

datatype type_token =
    Empty
  | NoneToken
  | StrToken string
  | ClassToken string
  | Generic string "type_token list"
  | ForwardRef string

record Parameter =
  param_name :: string
  param_annotation :: type_token
  param_default :: "json option"

type_synonym RegionResolutionStrategy = "ArgumentDict \<Rightarrow> exn + Region"

text \<open>
  A function object found on a class, with the attributes the decorators set:
  \<open>__is_rpc_method\<close>, \<open>__region_resolution\<close>, \<open>__region_resolution_optional_return\<close>
  (absent attributes read as \<open>False\<close> or \<open>None\<close>) and \<open>__isabstractmethod__\<close>.
  \<open>method_parameters\<close> lists all parameters, \<open>self\<close> first.
\<close>

record py_method =
  method_name :: string
  method_parameters :: "Parameter list"
  return_annotation :: type_token
  is_rpc_method :: bool
  region_resolution_attr :: "RegionResolutionStrategy option"
  region_resolution_optional_return :: bool
  isabstractmethod :: bool

text \<open>
  The decorators \<open>rpc_method\<close> and \<open>regional_rpc_method(resolve,
  return_none_if_mapping_not_found)\<close> set attributes on the function and return it.
\<close>

definition rpc_method :: "py_method \<Rightarrow> py_method" where
  "rpc_method m = m\<lparr>is_rpc_method := True\<rparr>"

definition regional_rpc_method :: "RegionResolutionStrategy \<Rightarrow> bool \<Rightarrow> py_method \<Rightarrow> py_method" where
  "regional_rpc_method resolve return_none_if_mapping_not_found m =
     rpc_method (m\<lparr>region_resolution_attr := Some resolve,
                    region_resolution_optional_return := return_none_if_mapping_not_found\<rparr>)"

text \<open>
  A class statement deriving from \<open>RpcService\<close>: its name, the class attributes \<open>key\<close>
  and \<open>local_mode\<close> and its callable attributes in the order of \<open>dir(cls)\<close>. \<open>None\<close>
  stands for an absent \<open>key\<close> or \<open>local_mode\<close>; one of another type than \<open>str\<close> or
  \<open>SiloMode\<close> is treated like an absent one.
\<close>

record service_class =
  cls_name :: string
  cls_key :: "string option"
  cls_local_mode :: "SiloMode option"
  cls_attrs :: "py_method list"

type_synonym field_definitions = "(string \<times> type_token \<times> json option) list"

record RpcMethodSignature =
  base_service_cls :: service_class
  base_method :: py_method
  parameter_model :: field_definitions
  return_model :: "type_token option"
  region_resolution :: "RegionResolutionStrategy option"

record RegionResolutionResult =
  result_region :: "Region option"
  is_early_halt :: bool

text \<open>
  The two callables that \<open>create_delegation\<close> stores per mode: the class method
  \<open>_get_and_validate_local_implementation\<close>, or the closure over \<open>use_test_client\<close> and
  \<open>nonlocal_class\<close> that calls \<open>_create_remote_implementation\<close>.
\<close>

datatype constructor =
    LocalConstructor
  | RemoteConstructor bool "service_class option"

record DelegatingRpcService =
  delegating_base_service_cls :: service_class
  delegating_constructors :: "SiloMode \<rightharpoonup> constructor"
  delegating_signatures :: "string \<rightharpoonup> RpcMethodSignature"

type_synonym registry = "string \<rightharpoonup> DelegatingRpcService"

subsection \<open>Transport and environment\<close>

record http_request =
  req_target :: string
  req_headers :: "(string \<times> string) list"
  req_data :: bytes
  req_test_client :: bool

text \<open>\<open>json_body\<close> is the result of \<open>response.json()\<close>, \<open>None\<close> when it raises.\<close>

record http_response =
  status_code :: int
  json_body :: "json option"

text \<open>
  Everything the module calls but does not define. \<open>pydantic_create_model\<close> answers
  whether \<open>pydantic.create_model\<close> accepts the field definitions; \<open>pydantic_dict\<close> is
  \<open>Model(**kwargs).dict()\<close>, \<open>pydantic_parse_obj\<close> is \<open>Model.parse_obj\<close> read back as a
  dictionary, \<open>pydantic_parse_value\<close> is the return model's \<open>parse_obj\<close> followed by the
  read of its single attribute. \<open>http_post\<close> is \<open>requests.post\<close> or the Django test client.
\<close>

record env =
  env_settings :: settings
  hmac_sha256 :: mac
  in_test_environment :: bool
  url_reverse :: "string \<Rightarrow> string \<Rightarrow> string"
  json_dumps :: "json \<Rightarrow> string"
  http_post :: "http_request \<Rightarrow> exn + http_response"
  pydantic_create_model :: "field_definitions \<Rightarrow> exn option"
  pydantic_dict :: "field_definitions \<Rightarrow> ArgumentDict \<Rightarrow> exn + ArgumentDict"
  pydantic_parse_obj :: "field_definitions \<Rightarrow> ArgumentDict \<Rightarrow> exn + ArgumentDict"
  pydantic_parse_value :: "type_token \<Rightarrow> json \<Rightarrow> exn + json"
  delegate_getattr :: "DelegatingRpcService \<Rightarrow> string \<Rightarrow> bool"

text \<open>
  \<open>DelegatedBySiloMode\<close>, the base class of the delegating facade, is declared outside the
  module: the facade forwards attribute access to the delegate bound for the current mode,
  and the parameter \<open>delegate_getattr\<close> says whether that lookup finds the attribute.
\<close>

text \<open>
  A computation that may use the transport returns its outcome together with the requests
  it handed to the transport, oldest first.
\<close>

type_synonym 'a traced = "(exn + 'a) \<times> http_request list"

subsection \<open>Method signatures at call time\<close>

text \<open>\<open>cls.key\<close> and the two name properties of a signature.\<close>

definition class_key :: "service_class \<Rightarrow> exn + string" where
  "class_key cls = (case cls_key cls of None \<Rightarrow> Inl AttributeError | Some k \<Rightarrow> Inr k)"

definition service_name :: "RpcMethodSignature \<Rightarrow> string" where
  "service_name sg = cls_name (base_service_cls sg)"

definition signature_method_name :: "RpcMethodSignature \<Rightarrow> string" where
  "signature_method_name sg = method_name (base_method sg)"

definition serialize_arguments :: "env \<Rightarrow> RpcMethodSignature \<Rightarrow> ArgumentDict \<Rightarrow> exn + ArgumentDict" where
  "serialize_arguments e sg raw_arguments = pydantic_dict e (parameter_model sg) raw_arguments"

definition deserialize_arguments :: "env \<Rightarrow> RpcMethodSignature \<Rightarrow> ArgumentDict \<Rightarrow> exn + ArgumentDict" where
  "deserialize_arguments e sg serial_arguments =
     (case pydantic_parse_obj e (parameter_model sg) serial_arguments of
        Inl _ \<Rightarrow> Inl RpcArgumentException
      | Inr parsed \<Rightarrow> Inr parsed)"

definition deserialize_return_value :: "env \<Rightarrow> RpcMethodSignature \<Rightarrow> json \<Rightarrow> exn + json" where
  "deserialize_return_value e sg v =
     (case return_model sg of
        None \<Rightarrow> (if v \<noteq> JNull then Inl RpcResponseException else Inr JNull)
      | Some return_type \<Rightarrow> pydantic_parse_value e return_type v)"

text \<open>The dataclass \<open>_RegionResolutionResult\<close> with the check of \<open>__post_init__\<close>.\<close>

definition make_RegionResolutionResult :: "Region option \<Rightarrow> bool \<Rightarrow> exn + RegionResolutionResult" where
  "make_RegionResolutionResult r halt =
     (if (r = None) \<noteq> halt then Inl ValueError
      else Inr \<lparr>result_region = r, is_early_halt = halt\<rparr>)"

text \<open>
  \<open>resolve_to_region\<close>: the inner \<open>try\<close> turns a missing mapping into an early halt when
  the method asks for it and re-raises otherwise; the outer \<open>try\<close> turns every exception
  that leaves the inner one into \<open>RpcServiceUnimplementedException\<close>.
\<close>

definition resolve_inner :: "RpcMethodSignature \<Rightarrow> RegionResolutionStrategy \<Rightarrow> ArgumentDict
    \<Rightarrow> exn + RegionResolutionResult" where
  "resolve_inner sg strategy arguments =
     (case strategy arguments of
        Inr region \<Rightarrow> make_RegionResolutionResult (Some region) False
      | Inl err \<Rightarrow>
          (if err = RegionMappingNotFound
           then (if region_resolution_optional_return (base_method sg)
                 then make_RegionResolutionResult None True
                 else Inl RegionMappingNotFound)
           else Inl err))"

definition resolve_to_region :: "RpcMethodSignature \<Rightarrow> ArgumentDict \<Rightarrow> exn + RegionResolutionResult" where
  "resolve_to_region sg arguments =
     (case region_resolution sg of
        None \<Rightarrow> Inl RpcServiceSetupException
      | Some strategy \<Rightarrow>
          (case resolve_inner sg strategy arguments of
             Inl _ \<Rightarrow> Inl RpcServiceUnimplementedException
           | Inr res \<Rightarrow> Inr res))"

subsection \<open>The registry and the remote call\<close>

text \<open>
  \<open>_look_up_service_method\<close>; of the pair it returns only the service is used by the
  callers modelled here.
\<close>

definition look_up_service_method :: "env \<Rightarrow> registry \<Rightarrow> string \<Rightarrow> string \<Rightarrow> exn + DelegatingRpcService" where
  "look_up_service_method e reg service_nm method_nm =
     (case reg service_nm of
        None \<Rightarrow> Inl RpcResolutionException
      | Some service \<Rightarrow>
          (if delegate_getattr e service method_nm then Inr service
           else Inl RpcResolutionException))"

definition deserialize_rpc_arguments :: "env \<Rightarrow> DelegatingRpcService \<Rightarrow> string \<Rightarrow> ArgumentDict
    \<Rightarrow> exn + ArgumentDict" where
  "deserialize_rpc_arguments e service method_nm serial_arguments =
     (case delegating_signatures service method_nm of
        None \<Rightarrow> Inl KeyError
      | Some sg \<Rightarrow> deserialize_arguments e sg serial_arguments)"

definition deserialize_rpc_response :: "env \<Rightarrow> DelegatingRpcService \<Rightarrow> string \<Rightarrow> json \<Rightarrow> exn + json" where
  "deserialize_rpc_response e service method_nm serial_response =
     (case delegating_signatures service method_nm of
        None \<Rightarrow> Inl KeyError
      | Some sg \<Rightarrow> deserialize_return_value e sg serial_response)"

record RemoteSiloCall =
  call_region :: "Region option"
  call_service_name :: string
  call_method_name :: string
  call_serial_arguments :: ArgumentDict

text \<open>The property \<open>address\<close>: an unset or empty address is a setup error.\<close>

definition address :: "env \<Rightarrow> RemoteSiloCall \<Rightarrow> exn + string" where
  "address e c =
     (case call_region c of
        None \<Rightarrow>
          (case SENTRY_CONTROL_ADDRESS (env_settings e) of
             None \<Rightarrow> Inl RpcServiceSetupException
           | Some a \<Rightarrow> (if a = [] then Inl RpcServiceSetupException else Inr a))
      | Some r \<Rightarrow>
          (case region_address r of
             None \<Rightarrow> Inl RpcServiceSetupException
           | Some a \<Rightarrow> (if a = [] then Inl RpcServiceSetupException else Inr a)))"

definition path :: "env \<Rightarrow> RemoteSiloCall \<Rightarrow> string" where
  "path e c = url_reverse e (call_service_name c) (call_method_name c)"

text \<open>
  \<open>_raise_from_response_status_error\<close> always raises \<open>RpcRemoteException\<close>, unless reading
  the detail of the response fails first in a test environment; the branches differ in the
  message only.
\<close>

definition raise_from_response_status_error :: "env \<Rightarrow> http_response \<Rightarrow> exn" where
  "raise_from_response_status_error e response =
     (if in_test_environment e then
        (if status_code response = 500 then RpcRemoteException
         else (case json_body response of
                 None \<Rightarrow> ValueError
               | Some j \<Rightarrow> (case subscript j ''detail'' of
                              Inl err \<Rightarrow> err
                            | Inr _ \<Rightarrow> RpcRemoteException)))
      else if status_code response = 403 then RpcRemoteException
      else if status_code response = 400 then RpcRemoteException
      else RpcRemoteException)"

text \<open>
  \<open>_fire_request\<close> posts to \<open>address + path\<close>; \<open>_fire_test_request\<close> posts the path to the
  test client, each header \<open>k\<close> renamed to \<open>"HTTP_" + k.replace("-", "_").upper()\<close> (the
  header names of the module are ASCII, and \<open>upper\<close> is modelled on ASCII letters). The
  metrics, the tracing span and the check that no transaction is open, which surround the
  request in the source, are not modelled.
\<close>

definition ascii_upper :: "char \<Rightarrow> char" where
  "ascii_upper c =
     (let n = (of_char c :: nat) in if 97 \<le> n \<and> n \<le> 122 then char_of (n - 32) else c)"

definition test_client_header :: "string \<Rightarrow> string" where
  "test_client_header k =
     ''HTTP_'' @ map ascii_upper (map (\<lambda>c. if c = CHR ''-'' then CHR ''_'' else c) k)"

definition fire_request :: "env \<Rightarrow> RemoteSiloCall \<Rightarrow> (string \<times> string) list \<Rightarrow> bytes
    \<Rightarrow> http_response traced" where
  "fire_request e c headers data =
     (case address e c of
        Inl err \<Rightarrow> (Inl err, [])
      | Inr a \<Rightarrow>
          (let request = \<lparr>req_target = a @ path e c, req_headers = headers, req_data = data,
                           req_test_client = False\<rparr>
           in (http_post e request, [request])))"

definition fire_test_request :: "env \<Rightarrow> RemoteSiloCall \<Rightarrow> (string \<times> string) list \<Rightarrow> bytes
    \<Rightarrow> http_response traced" where
  "fire_test_request e c headers data =
     (let extra = map (\<lambda>(k, v). (test_client_header k, v)) headers;
          request = \<lparr>req_target = path e c, req_headers = extra, req_data = data,
                      req_test_client = True\<rparr>
      in (http_post e request, [request]))"

definition send_to_remote_silo :: "env \<Rightarrow> RemoteSiloCall \<Rightarrow> bool \<Rightarrow> json traced" where
  "send_to_remote_silo e c use_test_client =
     (let request_body = JDict [(''meta'', JDict []), (''args'', JDict (call_serial_arguments c))];
          data = encode_utf8 (json_dumps e request_body)
      in case generate_request_signature (hmac_sha256 e) (env_settings e) (path e c) data of
           Inl err \<Rightarrow> (Inl err, [])
         | Inr signature \<Rightarrow>
             (let headers = [(''Content-Type'', ''application/json; charset=utf-8''),
                             (''Authorization'', ''Rpcsignature '' @ signature)];
                  fired = (if use_test_client then fire_test_request e c headers data
                           else fire_request e c headers data)
              in case fst fired of
                   Inl err \<Rightarrow> (Inl err, snd fired)
                 | Inr response \<Rightarrow>
                     (if status_code response = 200
                      then (case json_body response of
                              None \<Rightarrow> (Inl ValueError, snd fired)
                            | Some j \<Rightarrow> (Inr j, snd fired))
                      else (Inl (raise_from_response_status_error e response), snd fired))))"

text \<open>\<open>_RemoteSiloCall.dispatch\<close>: the lookup precedes the test for a null value.\<close>

definition dispatch :: "env \<Rightarrow> registry \<Rightarrow> RemoteSiloCall \<Rightarrow> bool \<Rightarrow> json traced" where
  "dispatch e reg c use_test_client =
     (let sent = send_to_remote_silo e c use_test_client
      in case fst sent of
           Inl err \<Rightarrow> (Inl err, snd sent)
         | Inr serial_response \<Rightarrow>
             (case subscript serial_response ''value'' of
                Inl err \<Rightarrow> (Inl err, snd sent)
              | Inr return_value \<Rightarrow>
                  (case look_up_service_method e reg (call_service_name c) (call_method_name c) of
                     Inl err \<Rightarrow> (Inl err, snd sent)
                   | Inr service \<Rightarrow>
                       (if return_value = JNull then (Inr JNull, snd sent)
                        else (deserialize_rpc_response e service (call_method_name c) return_value,
                              snd sent)))))"

definition dispatch_remote_call :: "env \<Rightarrow> registry \<Rightarrow> Region option \<Rightarrow> string \<Rightarrow> string
    \<Rightarrow> ArgumentDict \<Rightarrow> bool \<Rightarrow> json traced" where
  "dispatch_remote_call e reg region service_nm method_nm serial_arguments use_test_client =
     dispatch e reg
       \<lparr>call_region = region, call_service_name = service_nm, call_method_name = method_nm,
        call_serial_arguments = serial_arguments\<rparr>
       use_test_client"

text \<open>
  The closure \<open>remote_method\<close> built by \<open>create_remote_method\<close> for a class, a method name
  and the signature found for it.
\<close>

definition remote_call_after_resolution :: "env \<Rightarrow> registry \<Rightarrow> service_class \<Rightarrow> string
    \<Rightarrow> RpcMethodSignature \<Rightarrow> bool \<Rightarrow> ArgumentDict \<Rightarrow> Region option \<Rightarrow> json traced" where
  "remote_call_after_resolution e reg cls method_nm sg use_test_client kwargs region =
     (case serialize_arguments e sg kwargs of
        Inl err \<Rightarrow> (Inl err, [])
      | Inr serial_arguments \<Rightarrow>
          (case class_key cls of
             Inl err \<Rightarrow> (Inl err, [])
           | Inr k \<Rightarrow>
               dispatch_remote_call e reg region k method_nm serial_arguments use_test_client))"

definition remote_method :: "env \<Rightarrow> registry \<Rightarrow> service_class \<Rightarrow> string
    \<Rightarrow> RpcMethodSignature option \<Rightarrow> bool \<Rightarrow> ArgumentDict \<Rightarrow> json traced" where
  "remote_method e reg cls method_nm signature use_test_client kwargs =
     (case signature of
        None \<Rightarrow> (Inl RpcServiceUnimplementedException, [])
      | Some sg \<Rightarrow>
          (if cls_local_mode cls = Some REGION then
             (case resolve_to_region sg kwargs of
                Inl err \<Rightarrow> (Inl err, [])
              | Inr res \<Rightarrow>
                  (if is_early_halt res then (Inr JNull, [])
                   else remote_call_after_resolution e reg cls method_nm sg use_test_client
                          kwargs (result_region res)))
           else remote_call_after_resolution e reg cls method_nm sg use_test_client kwargs None))"

subsection \<open>Building the signatures when a service class is defined\<close>

definition is_str :: "type_token \<Rightarrow> bool" where
  "is_str token = (case token of StrToken _ \<Rightarrow> True | _ \<Rightarrow> False)"

definition validate_type_token :: "type_token \<Rightarrow> exn option" where
  "validate_type_token token = (if is_str token then Some ValueError else None)"

text \<open>\<open>create_field\<close>, the local function of \<open>_create_parameter_model\<close>.\<close>

definition create_field :: "Parameter \<Rightarrow> exn + (type_token \<times> json option)" where
  "create_field param =
     (if param_annotation param = Empty then Inl RpcServiceSetupException
      else (case validate_type_token (param_annotation param) of
              Some err \<Rightarrow> (if err = ValueError then Inl RpcServiceSetupException else Inl err)
            | None \<Rightarrow> Inr (param_annotation param, param_default param)))"

text \<open>The dictionary comprehension over the parameters, left to right.\<close>

fun create_fields :: "Parameter list \<Rightarrow> exn + field_definitions" where
  "create_fields [] = Inr []"
| "create_fields (p # ps) =
     (case create_field p of
        Inl err \<Rightarrow> Inl err
      | Inr (ty, dflt) \<Rightarrow>
          (case create_fields ps of
             Inl err \<Rightarrow> Inl err
           | Inr defs \<Rightarrow> Inr ((param_name p, ty, dflt) # defs)))"

definition create_parameter_model :: "env \<Rightarrow> py_method \<Rightarrow> exn + field_definitions" where
  "create_parameter_model e m =
     (let parameters = tl (method_parameters m)
      in case create_fields parameters of
           Inl err \<Rightarrow> Inl err
         | Inr defs \<Rightarrow>
             (case pydantic_create_model e defs of
                Some err \<Rightarrow> Inl err
              | None \<Rightarrow> Inr defs))"

definition create_return_model :: "env \<Rightarrow> py_method \<Rightarrow> exn + type_token option" where
  "create_return_model e m =
     (let return_type = return_annotation m
      in if return_type = NoneToken then Inr None
         else (case validate_type_token return_type of
                 Some err \<Rightarrow> Inl err
               | None \<Rightarrow>
                   (case pydantic_create_model e [(''value'', return_type, None)] of
                      Some err \<Rightarrow> Inl err
                    | None \<Rightarrow> Inr (Some return_type))))"

definition extract_region_resolution :: "service_class \<Rightarrow> py_method
    \<Rightarrow> exn + RegionResolutionStrategy option" where
  "extract_region_resolution cls m =
     (let resolution = region_resolution_attr m;
          is_region_service = (cls_local_mode cls = Some REGION)
      in if \<not> is_region_service \<and> resolution \<noteq> None then Inl RpcServiceSetupException
         else if is_region_service \<and> resolution = None then Inl RpcServiceSetupException
         else Inr resolution)"

text \<open>\<open>RpcMethodSignature.__init__\<close>: the three steps in the order of the source.\<close>

definition new_RpcMethodSignature :: "env \<Rightarrow> service_class \<Rightarrow> py_method \<Rightarrow> exn + RpcMethodSignature" where
  "new_RpcMethodSignature e cls m =
     (case create_parameter_model e m of
        Inl err \<Rightarrow> Inl err
      | Inr pm \<Rightarrow>
          (case create_return_model e m of
             Inl err \<Rightarrow> Inl err
           | Inr rm \<Rightarrow>
               (case extract_region_resolution cls m of
                  Inl err \<Rightarrow> Inl err
                | Inr rr \<Rightarrow>
                    Inr \<lparr>base_service_cls = cls, base_method = m, parameter_model = pm,
                         return_model = rm, region_resolution = rr\<rparr>)))"

definition get_all_rpc_methods :: "service_class \<Rightarrow> py_method list" where
  "get_all_rpc_methods cls = filter is_rpc_method (cls_attrs cls)"


definition has_rpc_methods :: "service_class \<Rightarrow> bool" where
  "has_rpc_methods cls = (get_all_rpc_methods cls \<noteq> [])"

text \<open>
  The loop of \<open>_create_signatures\<close>: any exception of the constructor is replaced by
  \<open>RpcServiceSetupException\<close>, whose arguments read \<open>cls.key\<close>.
\<close>

fun create_signatures_loop :: "env \<Rightarrow> service_class \<Rightarrow> (string \<rightharpoonup> RpcMethodSignature)
    \<Rightarrow> py_method list \<Rightarrow> exn + (string \<rightharpoonup> RpcMethodSignature)" where
  "create_signatures_loop e cls model_table [] = Inr model_table"
| "create_signatures_loop e cls model_table (m # ms) =
     (case new_RpcMethodSignature e cls m of
        Inl _ \<Rightarrow>
          (case class_key cls of
             Inl err \<Rightarrow> Inl err
           | Inr _ \<Rightarrow> Inl RpcServiceSetupException)
      | Inr sg \<Rightarrow> create_signatures_loop e cls (model_table(method_name m \<mapsto> sg)) ms)"

definition create_signatures :: "env \<Rightarrow> service_class \<Rightarrow> exn + (string \<rightharpoonup> RpcMethodSignature)" where
  "create_signatures e cls = create_signatures_loop e cls Map.empty (get_all_rpc_methods cls)"

text \<open>
  \<open>__init_subclass__\<close>, run by the class statement: it fails, or yields the table stored
  as \<open>cls._signatures\<close>.
\<close>

definition init_subclass :: "env \<Rightarrow> service_class \<Rightarrow> exn + (string \<rightharpoonup> RpcMethodSignature)" where
  "init_subclass e cls =
     (if has_rpc_methods cls then
        (if cls_key cls = None then Inl RpcServiceSetupException
         else if cls_local_mode cls = None then Inl RpcServiceSetupException
         else create_signatures e cls)
      else create_signatures e cls)"

subsection \<open>Delegation\<close>













datatype delegate_kind = Local | Remote

definition constructor_kind :: "constructor \<Rightarrow> delegate_kind" where
  "constructor_kind c = (case c of LocalConstructor \<Rightarrow> Local | RemoteConstructor _ _ \<Rightarrow> Remote)"

text \<open>
  \<open>create_delegation\<close>: the constructors per mode, the facade, and the updated global
  registry. Reading \<open>cls.local_mode\<close> or \<open>cls.key\<close> fails when the attribute is absent.
\<close>

definition choose_constructor :: "service_class \<Rightarrow> bool \<Rightarrow> service_class option \<Rightarrow> SiloMode
    \<Rightarrow> constructor" where
  "choose_constructor cls use_test_client nonlocal_class mode =
     (if mode = MONOLITH \<or> Some mode = cls_local_mode cls then LocalConstructor
      else RemoteConstructor use_test_client nonlocal_class)"

definition create_delegation :: "env \<Rightarrow> registry \<Rightarrow> service_class
    \<Rightarrow> (string \<rightharpoonup> RpcMethodSignature) \<Rightarrow> bool option \<Rightarrow> service_class option
    \<Rightarrow> exn + (DelegatingRpcService \<times> registry)" where
  "create_delegation e reg cls signatures use_test_client nonlocal_class =
     (let utc = (case use_test_client of None \<Rightarrow> in_test_environment e | Some b \<Rightarrow> b)
      in if cls_local_mode cls = None then Inl AttributeError
         else (let constructors =
                     map_of (map (\<lambda>mode. (mode, choose_constructor cls utc nonlocal_class mode))
                               all_silo_modes);
                   service = \<lparr>delegating_base_service_cls = cls,
                              delegating_constructors = constructors,
                              delegating_signatures = signatures\<rparr>
               in case class_key cls of
                    Inl err \<Rightarrow> Inl err
                  | Inr k \<Rightarrow> Inr (service, reg(k \<mapsto> service))))"

subsection \<open>Sample declarations\<close>

text \<open>
  A regional service with two abstract RPC methods, one of them declared with
  \<open>return_none_if_mapping_not_found\<close>, whose resolver finds no region; and an environment
  whose transport answers every request with HTTP 200 and a null value.
\<close>

definition no_mapping :: RegionResolutionStrategy where
  "no_mapping arguments = Inl RegionMappingNotFound"

definition self_parameter :: Parameter where
  "self_parameter = \<lparr>param_name = ''self'', param_annotation = Empty, param_default = None\<rparr>"

definition id_parameter :: Parameter where
  "id_parameter = \<lparr>param_name = ''id'', param_annotation = ClassToken ''int'', param_default = None\<rparr>"

text \<open>An abstract function as written in a class body, before any RPC decorator.\<close>

definition abstract_function :: "string \<Rightarrow> Parameter list \<Rightarrow> type_token \<Rightarrow> py_method" where
  "abstract_function nm params ret =
     \<lparr>method_name = nm,
      method_parameters = params,
      return_annotation = ret,
      is_rpc_method = False,
      region_resolution_attr = None,
      region_resolution_optional_return = False,
      isabstractmethod = True\<rparr>"

definition get_organization :: py_method where
  "get_organization =
     regional_rpc_method no_mapping True
       (abstract_function ''get_organization'' [self_parameter, id_parameter]
          (Generic ''Optional'' [ClassToken ''RpcOrganization'']))"

definition count_members :: py_method where
  "count_members =
     regional_rpc_method no_mapping False
       (abstract_function ''count_members'' [self_parameter, id_parameter] (ClassToken ''int''))"

definition OrganizationService :: service_class where
  "OrganizationService =
     \<lparr>cls_name = ''OrganizationService'', cls_key = Some ''organization'',
      cls_local_mode = Some REGION, cls_attrs = [count_members, get_organization]\<rparr>"

definition signature_of :: "service_class \<Rightarrow> py_method \<Rightarrow> type_token option \<Rightarrow> RpcMethodSignature" where
  "signature_of cls m rm =
     \<lparr>base_service_cls = cls, base_method = m,
      parameter_model = [(''id'', ClassToken ''int'', None)],
      return_model = rm, region_resolution = region_resolution_attr m\<rparr>"

definition null_envelope :: json where
  "null_envelope = JDict [(''meta'', JDict []), (''value'', JNull)]"

definition sample_env :: env where
  "sample_env =
     \<lparr>env_settings = sample_settings,
      hmac_sha256 = sample_mac,
      in_test_environment = False,
      url_reverse = (\<lambda>s m. ''/api/0/internal/rpc/'' @ s @ ''/'' @ m @ ''/''),
      json_dumps = (\<lambda>_. ''{}''),
      http_post = (\<lambda>_. Inr \<lparr>status_code = 200, json_body = Some null_envelope\<rparr>),
      pydantic_create_model = (\<lambda>_. None),
      pydantic_dict = (\<lambda>_ a. Inr a),
      pydantic_parse_obj = (\<lambda>_ a. Inr a),
      pydantic_parse_value = (\<lambda>_ _. Inl (OtherException ''ValidationError'')),
      delegate_getattr = (\<lambda>_ _. True)\<rparr>"

definition seven_envelope :: json where
  "seven_envelope = JDict [(''meta'', JDict []), (''value'', JInt 7)]"

definition answering :: "json \<Rightarrow> env" where
  "answering envelope =
     sample_env\<lparr>http_post := (\<lambda>_. Inr \<lparr>status_code = 200, json_body = Some envelope\<rparr>)\<rparr>"

definition sample_call :: RemoteSiloCall where
  "sample_call =
     \<lparr>call_region = None, call_service_name = ''organization'',
      call_method_name = ''count_members'', call_serial_arguments = [(''id'', JInt 1)]\<rparr>"

definition sample_service :: "type_token option \<Rightarrow> DelegatingRpcService" where
  "sample_service rm =
     \<lparr>delegating_base_service_cls = OrganizationService,
      delegating_constructors = Map.empty,
      delegating_signatures = [''count_members'' \<mapsto> signature_of OrganizationService count_members rm]\<rparr>"

definition sample_registry :: "type_token option \<Rightarrow> registry" where
  "sample_registry rm = [''organization'' \<mapsto> sample_service rm]"

text \<open>
  A service whose method \<open>update_thing\<close> annotates a parameter with the string
  \<open>"RpcThing"\<close>, and one whose method \<open>get_thing\<close> annotates its return value so.
\<close>

definition thing_parameter :: Parameter where
  "thing_parameter =
     \<lparr>param_name = ''thing'', param_annotation = StrToken ''RpcThing'', param_default = None\<rparr>"

definition update_thing :: py_method where
  "update_thing =
     rpc_method (abstract_function ''update_thing''
                   [self_parameter, id_parameter, thing_parameter] NoneToken)"

definition get_thing :: py_method where
  "get_thing =
     rpc_method (abstract_function ''get_thing'' [self_parameter, id_parameter]
                   (StrToken ''RpcThing''))"

definition ThingService :: "py_method \<Rightarrow> service_class" where
  "ThingService m =
     \<lparr>cls_name = ''ThingService'', cls_key = Some ''thing'',
      cls_local_mode = Some CONTROL, cls_attrs = [m]\<rparr>"

text \<open>
  A method that hides the forward reference inside a type parameter,
  \<open>Optional["RpcThing"]\<close>, the signature that the class statement builds for it, and an
  environment in which Pydantic behaves as the docstring of \<open>_validate_type_token\<close>
  describes: \<open>create_model\<close> accepts the fields, and using a model that holds an
  unresolved forward reference raises.
\<close>

definition nested_parameter :: Parameter where
  "nested_parameter =
     \<lparr>param_name = ''thing'',
      param_annotation = Generic ''Optional'' [ForwardRef ''RpcThing''],
      param_default = None\<rparr>"

definition find_thing :: py_method where
  "find_thing =
     rpc_method (abstract_function ''find_thing''
                   [self_parameter, id_parameter, nested_parameter] NoneToken)"

definition find_thing_signature :: RpcMethodSignature where
  "find_thing_signature =
     \<lparr>base_service_cls = ThingService find_thing,
      base_method = find_thing,
      parameter_model =
        [(''id'', ClassToken ''int'', None),
         (''thing'', Generic ''Optional'' [ForwardRef ''RpcThing''], None)],
      return_model = None,
      region_resolution = None\<rparr>"

fun has_forward_ref :: "type_token \<Rightarrow> bool" where
  "has_forward_ref (ForwardRef _) = True"
| "has_forward_ref (Generic _ args) = list_ex has_forward_ref args"
| "has_forward_ref _ = False"

definition deferring_env :: env where
  "deferring_env =
     sample_env\<lparr>pydantic_dict :=
       (\<lambda>defs args. if list_ex (\<lambda>(_, ty, _). has_forward_ref ty) defs
                    then Inl (OtherException ''ConfigError'') else Inr args)\<rparr>"



definition organization_signatures :: "string \<rightharpoonup> RpcMethodSignature" where
  "organization_signatures =
     [''count_members'' \<mapsto> signature_of OrganizationService count_members (Some (ClassToken ''int'')),
      ''get_organization'' \<mapsto> signature_of OrganizationService get_organization
          (Some (Generic ''Optional'' [ClassToken ''RpcOrganization'']))]"


section \<open>Properties of the request authenticator\<close>

lemmas decorator_defs = regional_rpc_method_def rpc_method_def abstract_function_def


lemma hexdigit_not_colon: "hexdigit n \<noteq> CHR '':''"
proof -
  have "hexdigit n \<in> set ''0123456789abcdef''"
    unfolding hexdigit_def by (rule nth_mem) simp
  then show ?thesis by auto
qed

lemma hexdigest_no_colon: "CHR '':'' \<notin> set (hexdigest bs)"
  using hexdigit_not_colon [symmetric]
  by (induction bs) (simp_all add: hexdigest_def hex_byte_def)

lemma hexdigest_lowercase_hex:
  "set (hexdigest bs) \<subseteq> set ''0123456789abcdef'' \<and> length (hexdigest bs) = 2 * length bs"
proof -
  define digits where "digits = set ''0123456789abcdef''"
  have digit: "hexdigit n \<in> digits" for n
    unfolding digits_def hexdigit_def by (rule nth_mem) simp
  have "set (hexdigest bs) \<subseteq> digits"
    by (induction bs) (simp_all add: hexdigest_def hex_byte_def digit)
  moreover have "length (hexdigest bs) = 2 * length bs"
    by (induction bs) (simp_all add: hexdigest_def hex_byte_def)
  ultimately show ?thesis
    unfolding digits_def by blast
qed

lemma cut_at_absent: "c \<notin> set s \<Longrightarrow> cut_at c s = None"
  by (induction s) auto

lemma split_tag: "split_max CHR '':'' 2 (''rpc0:'' @ hexdigest bs) = [''rpc0'', hexdigest bs]"
proof -
  have two: "(2::nat) = Suc (Suc 0)" by simp
  show ?thesis
    unfolding two by (simp add: cut_at_absent [OF hexdigest_no_colon])
qed

lemma any_key_matches_member:
  "s \<in> set keys \<Longrightarrow> any_key_matches H inp (hexdigest (H (encode_utf8 s) inp)) keys"
  by (induction keys) (auto simp: Let_def)

lemma compare_signature_spec_tag:
  assumes "RPC_SHARED_SECRET st = Some secrets" and "s \<in> set secrets"
  shows "compare_signature H st url_path body (spec_tag H s url_path body) = Inr True"
proof -
  have nonempty: "\<not> secrets_missing st"
    using assms by (auto simp: secrets_missing_def)
  have colon: "encode_utf8 '':'' = [0x3A]"
    by (simp add: encode_utf8_def utf8_char_def)
  have inp: "encode_utf8 url_path @ encode_utf8 '':'' @ body = signature_input url_path body"
    by (simp add: signature_input_def colon)
  have prefix: "startswith (''rpc0:'' @ x) ''rpc0:''" for x
    by (simp add: startswith_def)
  show ?thesis
    unfolding compare_signature_def spec_tag_def inp split_tag
    using nonempty assms prefix
    by (simp add: any_key_matches_member del: append.simps)
qed

lemma generate_request_signature_head:
  "RPC_SHARED_SECRET st = Some (s0 # rest) \<Longrightarrow>
   generate_request_signature H st url_path body = Inr (spec_tag H s0 url_path body)"
  by (simp add: generate_request_signature_def secrets_missing_def spec_tag_def
      signature_input_def encode_utf8_def utf8_char_def)

text \<open>
  Claim C2 (signature rotation round trip). With a non-empty list of shared secrets
  configured, the tag \<open>"rpc0:" + hex(HMAC-SHA256(s, path + ":" + body))\<close> of any secret \<open>s\<close> of
  the list is accepted by \<open>compare_signature\<close>; the tag that \<open>generate_request_signature\<close>
  returns is accepted; and that tag is still accepted under any other configuration in
  which the signing secret (index 0 at signing time) occurs at any index.
\<close>

theorem signature_rotation_round_trip:
  assumes "RPC_SHARED_SECRET st = Some secrets" and "secrets \<noteq> []"
  shows "(\<forall>s \<in> set secrets.
            compare_signature H st url_path body (spec_tag H s url_path body) = Inr True)
       \<and> (\<exists>tag. generate_request_signature H st url_path body = Inr tag
              \<and> compare_signature H st url_path body tag = Inr True)
       \<and> (\<forall>st' secrets'. RPC_SHARED_SECRET st' = Some secrets' \<and> hd secrets \<in> set secrets'
              \<longrightarrow> (\<exists>tag. generate_request_signature H st url_path body = Inr tag
                     \<and> compare_signature H st' url_path body tag = Inr True))"
proof -
  obtain s0 rest where split: "secrets = s0 # rest"
    using assms(2) by (cases secrets) auto
  have gen: "generate_request_signature H st url_path body = Inr (spec_tag H s0 url_path body)"
    using assms(1) split by (simp add: generate_request_signature_head)
  have every: "\<forall>s \<in> set secrets.
      compare_signature H st url_path body (spec_tag H s url_path body) = Inr True"
    using assms(1) by (simp add: compare_signature_spec_tag)
  have own: "compare_signature H st url_path body (spec_tag H s0 url_path body) = Inr True"
    using every split by simp
  have moved: "compare_signature H st' url_path body (spec_tag H s0 url_path body) = Inr True"
    if "RPC_SHARED_SECRET st' = Some secrets'" and "hd secrets \<in> set secrets'"
    for st' secrets'
    using that split by (simp add: compare_signature_spec_tag)
  show ?thesis
    using every gen own moved by blast
qed

theorem signature_rotation_round_trip_witness:
  "RPC_SHARED_SECRET sample_settings = Some [''new'', ''old''] \<and> [''new'', ''old''] \<noteq> []
   \<and> compare_signature sample_mac sample_settings ''/rpc/foo/bar'' sample_body
        (spec_tag sample_mac ''old'' ''/rpc/foo/bar'' sample_body) = Inr True
   \<and> (\<exists>tag. generate_request_signature sample_mac sample_settings ''/rpc/foo/bar'' sample_body
                = Inr tag
            \<and> compare_signature sample_mac
                 \<lparr>RPC_SHARED_SECRET = Some [''newest'', ''new''], SENTRY_CONTROL_ADDRESS = None\<rparr>
                 ''/rpc/foo/bar'' sample_body tag = Inr True)"
proof -
  have cfg: "RPC_SHARED_SECRET sample_settings = Some [''new'', ''old'']"
    by (simp add: sample_settings_def)
  have ne: "[''new'', ''old''] \<noteq> []" by simp
  note law = signature_rotation_round_trip
    [OF cfg ne, of sample_mac "''/rpc/foo/bar''" sample_body]
  have old: "compare_signature sample_mac sample_settings ''/rpc/foo/bar'' sample_body
      (spec_tag sample_mac ''old'' ''/rpc/foo/bar'' sample_body) = Inr True"
    using law by simp
  have rot: "\<exists>tag. generate_request_signature sample_mac sample_settings ''/rpc/foo/bar''
                 sample_body = Inr tag
            \<and> compare_signature sample_mac
                 \<lparr>RPC_SHARED_SECRET = Some [''newest'', ''new''], SENTRY_CONTROL_ADDRESS = None\<rparr>
                 ''/rpc/foo/bar'' sample_body tag = Inr True"
    using law by simp
  show ?thesis using cfg ne old rot by blast
qed

text \<open>
  Claim C5 (signing formula). With a non-empty list of shared secrets,
  \<open>generate_request_signature\<close> returns exactly \<open>"rpc0:"\<close> followed by the lowercase
  hexadecimal digest of the MAC, keyed by the secret at index 0, of the bytes
  \<open>path + ":" + body\<close>; the later secrets play no part.
\<close>

theorem signing_formula:
  assumes "RPC_SHARED_SECRET st = Some secrets" and "secrets \<noteq> []"
  shows "generate_request_signature H st url_path body
           = Inr (''rpc0:'' @ hexdigest (H (encode_utf8 (secrets ! 0))
                                           (encode_utf8 url_path @ encode_utf8 '':'' @ body)))"
proof -
  obtain s0 rest where split: "secrets = s0 # rest"
    using assms(2) by (cases secrets) auto
  show ?thesis
    using generate_request_signature_head [of st s0 rest H url_path body] assms(1) split
    by (simp add: spec_tag_def)
qed

theorem signing_formula_witness:
  "RPC_SHARED_SECRET sample_settings = Some [''new'', ''old''] \<and> [''new'', ''old''] \<noteq> []
   \<and> generate_request_signature sample_mac sample_settings ''/rpc/foo/bar''
         (encode_utf8 ''{\"args\":{}}'')
       = Inr (''rpc0:'' @ hexdigest (sample_mac (encode_utf8 ''new'')
                                       (encode_utf8 ''/rpc/foo/bar:{\"args\":{}}'')))"
proof -
  have cfg: "RPC_SHARED_SECRET sample_settings = Some [''new'', ''old'']"
    by (simp add: sample_settings_def)
  have ne: "[''new'', ''old''] \<noteq> []" by simp
  show ?thesis
    using signing_formula [OF cfg ne, of sample_mac "''/rpc/foo/bar''" "encode_utf8 ''{\"args\":{}}''"] cfg
    by (simp add: encode_utf8_def)
qed

text \<open>
  Claim C9 (verifier totality) fails on the code: a tag with the right version prefix and a
  second colon makes \<open>signature.split(":", 2)\<close> return three parts, and unpacking them into
  two names raises \<open>ValueError\<close> instead of returning \<open>False\<close>.
\<close>

theorem compare_signature_second_colon_raises:
  "compare_signature sample_mac sample_settings ''/rpc/foo/bar'' sample_body ''rpc0:ab:cd''
     = Inl ValueError"
proof -
  have two: "(2::nat) = Suc (Suc 0)" by simp
  show ?thesis
    unfolding compare_signature_def two
    by (simp add: secrets_missing_def sample_settings_def startswith_def)
qed

text \<open>Away from that input shape the verifier does return a boolean.\<close>

lemma compare_signature_boolean_without_second_colon:
  assumes "\<not> secrets_missing st"
    and "\<not> (startswith signature ''rpc0:'' \<and> CHR '':'' \<in> set (drop 5 signature))"
  shows "\<exists>b. compare_signature H st url body signature = Inr b"
proof (cases "startswith signature ''rpc0:''")
  case False
  then show ?thesis using assms(1) by (auto simp add: compare_signature_def)
next
  case True
  have five: "length ''rpc0:'' = 5" by simp
  from True have "take 5 signature = ''rpc0:''"
    unfolding startswith_def five .
  then have shape: "signature = ''rpc0:'' @ drop 5 signature"
    using append_take_drop_id [of 5 signature] by simp
  have absent: "CHR '':'' \<notin> set (drop 5 signature)"
    using True assms(2) by simp
  have two: "(2::nat) = Suc (Suc 0)" by simp
  have "split_max CHR '':'' 2 (''rpc0:'' @ drop 5 signature) = [''rpc0'', drop 5 signature]"
    unfolding two by (simp add: cut_at_absent [OF absent])
  then have "split_max CHR '':'' 2 signature = [''rpc0'', drop 5 signature]"
    using shape by simp
  then show ?thesis
    using True assms(1) by (simp add: compare_signature_def)
qed

section \<open>Properties of remote dispatch\<close>

text \<open>
  A signature built for a function decorated with \<open>regional_rpc_method\<close> carries the
  resolver and the policy given to the decorator.
\<close>

lemma new_RpcMethodSignature_regional:
  assumes "new_RpcMethodSignature e cls (regional_rpc_method resolve flag f) = Inr sg"
  shows "region_resolution sg = Some resolve
       \<and> region_resolution_optional_return (base_method sg) = flag"
  using assms
  by (auto simp: new_RpcMethodSignature_def extract_region_resolution_def
      regional_rpc_method_def rpc_method_def Let_def split: sum.splits if_splits)

text \<open>
  Claim C1 (early-halt law). For a method of a service whose home is the region silo, when
  the region resolver of the method raises \<open>RegionMappingNotFound\<close> during a remote call:
  if the method was declared with \<open>return_none_if_mapping_not_found\<close>, the call returns
  \<open>None\<close> and hands no request to the transport; otherwise it fails with the exception the
  specification calls ServiceUnavailable (\<open>RpcServiceUnimplementedException\<close> in the
  source), again with no request handed to the transport.
\<close>

theorem early_halt_law:
  assumes "cls_local_mode cls = Some REGION"
      and "region_resolution sg = Some strategy"
      and "strategy kwargs = Inl RegionMappingNotFound"
  shows "remote_method e reg cls nm (Some sg) utc kwargs =
           (if region_resolution_optional_return (base_method sg)
            then (Inr JNull, [])
            else (Inl RpcServiceUnimplementedException, []))"
  using assms
  by (simp add: remote_method_def resolve_to_region_def resolve_inner_def
      make_RegionResolutionResult_def)

theorem early_halt_law_witness:
  "cls_local_mode OrganizationService = Some REGION
   \<and> region_resolution (signature_of OrganizationService get_organization None) = Some no_mapping
   \<and> region_resolution (signature_of OrganizationService count_members None) = Some no_mapping
   \<and> no_mapping [(''id'', JInt 1)] = Inl RegionMappingNotFound
   \<and> remote_method sample_env Map.empty OrganizationService ''get_organization''
        (Some (signature_of OrganizationService get_organization None)) False [(''id'', JInt 1)]
       = (Inr JNull, [])
   \<and> remote_method sample_env Map.empty OrganizationService ''count_members''
        (Some (signature_of OrganizationService count_members None)) False [(''id'', JInt 1)]
       = (Inl RpcServiceUnimplementedException, [])"
proof -
  have home: "cls_local_mode OrganizationService = Some REGION"
    by (simp add: OrganizationService_def)
  have r1: "region_resolution (signature_of OrganizationService get_organization None) = Some no_mapping"
    by (simp add: signature_of_def get_organization_def decorator_defs)
  have r2: "region_resolution (signature_of OrganizationService count_members None) = Some no_mapping"
    by (simp add: signature_of_def count_members_def decorator_defs)
  have miss: "no_mapping [(''id'', JInt 1)] = Inl RegionMappingNotFound"
    by (simp add: no_mapping_def)
  show ?thesis
    using early_halt_law [OF home r1 miss, of sample_env Map.empty "''get_organization''" False]
      early_halt_law [OF home r2 miss, of sample_env Map.empty "''count_members''" False]
      home r1 r2 miss
    by (simp add: signature_of_def get_organization_def count_members_def decorator_defs)
qed

text \<open>
  What a successful \<open>_send_to_remote_silo\<close> means at the level of HTTP, and when it
  happens: one request was posted and answered with status 200 and a JSON body.
\<close>

lemma send_to_remote_silo_success:
  assumes "send_to_remote_silo e c utc = (Inr envelope, log)"
  shows "\<exists>request response. log = [request] \<and> http_post e request = Inr response
           \<and> status_code response = 200 \<and> json_body response = Some envelope"
  using assms
  by (auto simp: send_to_remote_silo_def fire_request_def fire_test_request_def Let_def
      split: sum.splits if_splits option.splits)

lemma send_to_remote_silo_answered:
  assumes "\<not> secrets_missing (env_settings e)"
      and "utc \<or> (\<exists>a. address e c = Inr a)"
      and "\<And>request. http_post e request = Inr response"
      and "status_code response = 200"
      and "json_body response = Some envelope"
  shows "\<exists>request. send_to_remote_silo e c utc = (Inr envelope, [request])"
  using assms
  by (auto simp: send_to_remote_silo_def generate_request_signature_def fire_request_def
      fire_test_request_def Let_def)

lemma answering_send:
  "\<exists>request. send_to_remote_silo (answering envelope) sample_call False = (Inr envelope, [request])"
proof (rule send_to_remote_silo_answered)
  show "\<not> secrets_missing (env_settings (answering envelope))"
    by (simp add: answering_def sample_env_def sample_settings_def secrets_missing_def)
  show "False \<or> (\<exists>a. address (answering envelope) sample_call = Inr a)"
    by (simp add: answering_def sample_env_def sample_settings_def address_def sample_call_def)
  show "http_post (answering envelope) request
          = Inr \<lparr>status_code = 200, json_body = Some envelope\<rparr>" for request
    by (simp add: answering_def)
qed simp_all

lemma sample_lookup:
  "look_up_service_method (answering envelope) (sample_registry rm)
     (call_service_name sample_call) (call_method_name sample_call) = Inr (sample_service rm)"
  by (simp add: look_up_service_method_def sample_registry_def sample_call_def answering_def
      sample_env_def)

text \<open>
  Claim C8 (void-return contract). For a method declared with return type \<open>None\<close>,
  \<open>deserialize_return_value\<close> raises \<open>RpcResponseException\<close> on every non-null value and
  returns (then \<open>None\<close>) only for a null one; and a remote dispatch whose response envelope
  carries a non-null value for such a method, registered under the called names, raises
  \<open>RpcResponseException\<close> instead of dropping the value.
\<close>

theorem void_return_contract:
  assumes "return_model sg = None"
  shows "(v \<noteq> JNull \<longrightarrow> deserialize_return_value e sg v = Inl RpcResponseException)
       \<and> (\<forall>r. deserialize_return_value e sg v = Inr r \<longrightarrow> v = JNull \<and> r = JNull)
       \<and> (\<forall>reg c utc envelope log service.
             send_to_remote_silo e c utc = (Inr envelope, log)
             \<and> subscript envelope ''value'' = Inr v \<and> v \<noteq> JNull
             \<and> look_up_service_method e reg (call_service_name c) (call_method_name c) = Inr service
             \<and> delegating_signatures service (call_method_name c) = Some sg
             \<longrightarrow> dispatch e reg c utc = (Inl RpcResponseException, log))"
  using assms
  by (auto simp: deserialize_return_value_def dispatch_def deserialize_rpc_response_def Let_def)

theorem void_return_contract_witness:
  "return_model (signature_of OrganizationService count_members None) = None
   \<and> JInt 7 \<noteq> JNull
   \<and> subscript seven_envelope ''value'' = Inr (JInt 7)
   \<and> deserialize_return_value sample_env (signature_of OrganizationService count_members None)
        (JInt 7) = Inl RpcResponseException
   \<and> (\<exists>request.
         send_to_remote_silo (answering seven_envelope) sample_call False
           = (Inr seven_envelope, [request])
       \<and> dispatch (answering seven_envelope) (sample_registry None) sample_call False
           = (Inl RpcResponseException, [request]))"
proof -
  let ?sg = "signature_of OrganizationService count_members None"
  have void: "return_model ?sg = None"
    by (simp add: signature_of_def)
  have val: "subscript seven_envelope ''value'' = Inr (JInt 7)"
    by (simp add: seven_envelope_def)
  have sgs: "delegating_signatures (sample_service None) (call_method_name sample_call) = Some ?sg"
    by (simp add: sample_service_def sample_call_def)
  obtain request where sent:
    "send_to_remote_silo (answering seven_envelope) sample_call False
       = (Inr seven_envelope, [request])"
    using answering_send by blast
  note law1 = void_return_contract [OF void, of "JInt 7" sample_env]
  note law2 = void_return_contract [OF void, of "JInt 7" "answering seven_envelope"]
  have local: "deserialize_return_value sample_env ?sg (JInt 7) = Inl RpcResponseException"
    using law1 by simp
  have remote: "dispatch (answering seven_envelope) (sample_registry None) sample_call False
      = (Inl RpcResponseException, [request])"
    using law2 sent val sample_lookup [of seven_envelope None] sgs by blast
  show ?thesis
    using void val local sent remote by blast
qed

text \<open>
  Claim C10 (a null value bypasses the return schema). When the remote answers HTTP 200
  with an envelope whose value is null, and the called service and method are found in the
  registry, dispatch returns \<open>None\<close> without deserialising: whatever the declared return
  type is, and whatever the return schema would say about a null.
\<close>

theorem null_value_bypasses_return_schema:
  assumes "send_to_remote_silo e c utc = (Inr envelope, log)"
      and "subscript envelope ''value'' = Inr JNull"
      and "look_up_service_method e reg (call_service_name c) (call_method_name c) = Inr service"
  shows "dispatch e reg c utc = (Inr JNull, log)
       \<and> (\<forall>parse. dispatch (e\<lparr>pydantic_parse_value := parse\<rparr>) reg c utc = (Inr JNull, log))"
proof -
  have same_send: "send_to_remote_silo (e\<lparr>pydantic_parse_value := parse\<rparr>) c utc
      = send_to_remote_silo e c utc" for parse
  proof -
    let ?e = "e\<lparr>pydantic_parse_value := parse\<rparr>"
    have a: "address ?e c = address e c"
      by (simp add: address_def split: option.splits)
    have f1: "fire_request ?e c h d = fire_request e c h d" for h d
      by (simp add: fire_request_def a path_def Let_def split: sum.splits)
    have f2: "fire_test_request ?e c h d = fire_test_request e c h d" for h d
      by (simp add: fire_test_request_def path_def)
    have f3: "raise_from_response_status_error ?e r = raise_from_response_status_error e r" for r
      by (simp add: raise_from_response_status_error_def split: option.splits sum.splits)
    show ?thesis
      by (simp add: send_to_remote_silo_def f1 f2 f3 path_def
          cong: if_cong sum.case_cong option.case_cong)
  qed
  have same_lookup: "look_up_service_method (e\<lparr>pydantic_parse_value := parse\<rparr>) reg s m
      = look_up_service_method e reg s m" for parse s m
    by (simp add: look_up_service_method_def split: option.splits)
  show ?thesis
    using assms by (simp add: dispatch_def same_send same_lookup)
qed

theorem null_value_bypasses_return_schema_witness:
  "subscript null_envelope ''value'' = Inr JNull
   \<and> look_up_service_method (answering null_envelope) (sample_registry (Some (ClassToken ''int'')))
        (call_service_name sample_call) (call_method_name sample_call)
       = Inr (sample_service (Some (ClassToken ''int'')))
   \<and> pydantic_parse_value (answering null_envelope) (ClassToken ''int'') JNull
       = Inl (OtherException ''ValidationError'')
   \<and> (\<exists>request.
         send_to_remote_silo (answering null_envelope) sample_call False
           = (Inr null_envelope, [request])
       \<and> dispatch (answering null_envelope) (sample_registry (Some (ClassToken ''int'')))
            sample_call False
           = (Inr JNull, [request]))"
proof -
  have val: "subscript null_envelope ''value'' = Inr JNull"
    by (simp add: null_envelope_def)
  have strict: "pydantic_parse_value (answering null_envelope) (ClassToken ''int'') JNull
      = Inl (OtherException ''ValidationError'')"
    by (simp add: answering_def sample_env_def)
  obtain request where sent:
    "send_to_remote_silo (answering null_envelope) sample_call False
       = (Inr null_envelope, [request])"
    using answering_send by blast
  have "dispatch (answering null_envelope) (sample_registry (Some (ClassToken ''int'')))
      sample_call False = (Inr JNull, [request])"
    using null_value_bypasses_return_schema
      [OF sent val sample_lookup [of null_envelope "Some (ClassToken ''int'')"]]
    by simp
  then show ?thesis
    using val strict sent sample_lookup [of null_envelope "Some (ClassToken ''int'')"] by blast
qed

section \<open>Properties of contract declaration and binding\<close>

lemma map_of_modes:
  "map_of (map (\<lambda>mode. (mode, f mode)) all_silo_modes) mode = Some (f mode)"
  by (cases mode) (simp_all add: all_silo_modes_def)

text \<open>
  Claim C4 (topology binding rule and determinism). For a contract that declares \<open>key\<close>
  and \<open>local_mode\<close>, \<open>create_delegation\<close> succeeds and binds, for every mode, the local
  implementation exactly when the mode is the home mode of the contract or the monolith
  mode, and the remote implementation otherwise; and whatever the environment, the
  registry, the signature table, \<open>use_test_client\<close> and \<open>nonlocal_class\<close> are at another
  binding of the same contract, the kind bound for a mode is the same.
\<close>

theorem topology_binding_rule:
  assumes "cls_key cls = Some k" and "cls_local_mode cls = Some home"
  shows "\<exists>service reg'.
           create_delegation e reg cls signatures use_test_client nonlocal_class
             = Inr (service, reg')
         \<and> (\<forall>mode. \<exists>c. delegating_constructors service mode = Some c
                \<and> (constructor_kind c = Local \<longleftrightarrow> mode = home \<or> mode = MONOLITH)
                \<and> (constructor_kind c = Remote \<longleftrightarrow> \<not> (mode = home \<or> mode = MONOLITH)))
         \<and> (\<forall>e' reg0 signatures' use_test_client' nonlocal_class' service' reg1 mode.
                create_delegation e' reg0 cls signatures' use_test_client' nonlocal_class'
                  = Inr (service', reg1)
                \<longrightarrow> map_option constructor_kind (delegating_constructors service' mode)
                    = map_option constructor_kind (delegating_constructors service mode))"
  using assms
  by (auto simp: create_delegation_def class_key_def Let_def map_of_modes choose_constructor_def
      constructor_kind_def)

theorem topology_binding_rule_witness:
  "cls_key OrganizationService = Some ''organization''
   \<and> cls_local_mode OrganizationService = Some REGION
   \<and> (\<exists>service reg'.
         create_delegation sample_env Map.empty OrganizationService organization_signatures
           None None = Inr (service, reg')
       \<and> map_option constructor_kind (delegating_constructors service REGION) = Some Local
       \<and> map_option constructor_kind (delegating_constructors service MONOLITH) = Some Local
       \<and> map_option constructor_kind (delegating_constructors service CONTROL) = Some Remote)"
proof -
  have k: "cls_key OrganizationService = Some ''organization''"
    by (simp add: OrganizationService_def)
  have home: "cls_local_mode OrganizationService = Some REGION"
    by (simp add: OrganizationService_def)
  obtain service reg' where
    made: "create_delegation sample_env Map.empty OrganizationService organization_signatures
             None None = Inr (service, reg')"
    and rule: "\<forall>mode. \<exists>c. delegating_constructors service mode = Some c
                \<and> (constructor_kind c = Local \<longleftrightarrow> mode = REGION \<or> mode = MONOLITH)
                \<and> (constructor_kind c = Remote \<longleftrightarrow> \<not> (mode = REGION \<or> mode = MONOLITH))"
    using topology_binding_rule [OF k home, of sample_env Map.empty organization_signatures
        None None]
    by blast
  have "map_option constructor_kind (delegating_constructors service REGION) = Some Local"
    using rule [rule_format, of REGION] by auto
  moreover have "map_option constructor_kind (delegating_constructors service MONOLITH) = Some Local"
    using rule [rule_format, of MONOLITH] by auto
  moreover have "map_option constructor_kind (delegating_constructors service CONTROL) = Some Remote"
    using rule [rule_format, of CONTROL] by auto
  ultimately show ?thesis
    using k home made by blast
qed

text \<open>
  A string among the parameter annotations makes the field definitions fail, a string as
  return annotation makes the return model fail, and one failing method makes the whole
  table fail.
\<close>

lemma create_fields_string_annotation:
  "\<exists>p \<in> set ps. is_str (param_annotation p) \<Longrightarrow> create_fields ps = Inl RpcServiceSetupException"
proof (induction ps)
  case Nil
  then show ?case by simp
next
  case (Cons p ps)
  show ?case
  proof (cases "create_field p")
    case (Inl err)
    then have "err = RpcServiceSetupException"
      by (auto simp: create_field_def validate_type_token_def split: if_splits)
    with Inl show ?thesis by simp
  next
    case (Inr field)
    then have "\<not> is_str (param_annotation p)"
      by (auto simp: create_field_def validate_type_token_def split: if_splits)
    with Cons.prems have "\<exists>q \<in> set ps. is_str (param_annotation q)" by auto
    then have "create_fields ps = Inl RpcServiceSetupException" by (rule Cons.IH)
    with Inr show ?thesis by (simp split: prod.splits)
  qed
qed

lemma new_RpcMethodSignature_string_annotation:
  assumes "(\<exists>p \<in> set (tl (method_parameters m)). is_str (param_annotation p))
           \<or> is_str (return_annotation m)"
  shows "\<exists>err. new_RpcMethodSignature e cls m = Inl err"
proof (cases "create_parameter_model e m")
  case (Inl err)
  then show ?thesis by (simp add: new_RpcMethodSignature_def)
next
  case (Inr pm)
  then have "create_fields (tl (method_parameters m)) \<noteq> Inl RpcServiceSetupException"
    by (auto simp: create_parameter_model_def Let_def split: sum.splits)
  then have "\<not> (\<exists>p \<in> set (tl (method_parameters m)). is_str (param_annotation p))"
    using create_fields_string_annotation [of "tl (method_parameters m)"] by blast
  with assms have str: "is_str (return_annotation m)" by blast
  then have "return_annotation m \<noteq> NoneToken"
    by (auto simp: is_str_def)
  with str have "create_return_model e m = Inl ValueError"
    by (simp add: create_return_model_def validate_type_token_def Let_def)
  with Inr show ?thesis by (simp add: new_RpcMethodSignature_def)
qed

lemma create_signatures_loop_failure:
  assumes "class_key cls = Inr k"
      and "\<exists>m \<in> set ms. \<exists>err. new_RpcMethodSignature e cls m = Inl err"
  shows "create_signatures_loop e cls model_table ms = Inl RpcServiceSetupException"
  using assms(2)
proof (induction ms arbitrary: model_table)
  case Nil
  then show ?case by simp
next
  case (Cons m ms)
  show ?case
  proof (cases "new_RpcMethodSignature e cls m")
    case (Inl err)
    then show ?thesis using assms(1) by simp
  next
    case (Inr sg)
    with Cons.prems have "\<exists>m' \<in> set ms. \<exists>err. new_RpcMethodSignature e cls m' = Inl err"
      by auto
    then show ?thesis using Inr Cons.IH by simp
  qed
qed

text \<open>
  Claim C6, as amended (string annotations are rejected when the contract is built). If an
  RPC method of a service class annotates one of its parameters (those after \<open>self\<close>) or
  its return value with an annotation that is itself a string, the class statement fails
  with \<open>RpcServiceSetupException\<close>: no signature table comes to exist, so nothing is left
  to fail at the first call. The check is best effort: it looks at the annotation itself
  and not inside its type parameters.
\<close>

theorem string_annotation_rejected_at_class_definition:
  assumes "m \<in> set (get_all_rpc_methods cls)"
      and "(\<exists>p \<in> set (tl (method_parameters m)). is_str (param_annotation p))
           \<or> is_str (return_annotation m)"
  shows "init_subclass e cls = Inl RpcServiceSetupException"
proof -
  have rpc: "has_rpc_methods cls"
    using assms(1) by (auto simp: has_rpc_methods_def)
  have bad: "\<exists>m' \<in> set (get_all_rpc_methods cls). \<exists>err. new_RpcMethodSignature e cls m' = Inl err"
    using assms new_RpcMethodSignature_string_annotation by blast
  show ?thesis
  proof (cases "cls_key cls")
    case None
    then show ?thesis using rpc by (simp add: init_subclass_def)
  next
    case (Some k)
    then have "class_key cls = Inr k" by (simp add: class_key_def)
    then have "create_signatures e cls = Inl RpcServiceSetupException"
      unfolding create_signatures_def using bad by (rule create_signatures_loop_failure)
    then show ?thesis using rpc Some by (simp add: init_subclass_def)
  qed
qed

theorem string_annotation_rejected_at_class_definition_witness:
  "update_thing \<in> set (get_all_rpc_methods (ThingService update_thing))
   \<and> (\<exists>p \<in> set (tl (method_parameters update_thing)). is_str (param_annotation p))
   \<and> init_subclass sample_env (ThingService update_thing) = Inl RpcServiceSetupException
   \<and> get_thing \<in> set (get_all_rpc_methods (ThingService get_thing))
   \<and> is_str (return_annotation get_thing)
   \<and> init_subclass sample_env (ThingService get_thing) = Inl RpcServiceSetupException"
proof -
  have m1: "update_thing \<in> set (get_all_rpc_methods (ThingService update_thing))"
    by (simp add: get_all_rpc_methods_def ThingService_def update_thing_def decorator_defs)
  have p1: "\<exists>p \<in> set (tl (method_parameters update_thing)). is_str (param_annotation p)"
    by (simp add: update_thing_def decorator_defs thing_parameter_def id_parameter_def is_str_def)
  have m2: "get_thing \<in> set (get_all_rpc_methods (ThingService get_thing))"
    by (simp add: get_all_rpc_methods_def ThingService_def get_thing_def decorator_defs)
  have p2: "is_str (return_annotation get_thing)"
    by (simp add: get_thing_def decorator_defs is_str_def)
  show ?thesis
    using string_annotation_rejected_at_class_definition [OF m1, of sample_env]
      string_annotation_rejected_at_class_definition [OF m2, of sample_env] m1 p1 m2 p2
    by blast
qed

text \<open>
  The check looks at the annotation itself only, as the docstring of
  \<open>_validate_type_token\<close> says: a forward reference nested in a type parameter passes it.
\<close>

lemma nested_forward_reference_passes_token_check:
  "validate_type_token (Generic ''Optional'' [ForwardRef ''RpcThing'']) = None"
  by (simp add: validate_type_token_def is_str_def)

text \<open>
  Claim C6 as first stated, for every unresolved or forward-declared type reference, does
  not hold: the class statement of a service whose method takes an
  \<open>Optional["RpcThing"]\<close> succeeds and stores a signature for the method, and the failure
  comes when that signature is first used to serialise arguments.
\<close>

theorem nested_forward_reference_deferred_to_first_call:
  "init_subclass deferring_env (ThingService find_thing)
     = Inr [''find_thing'' \<mapsto> find_thing_signature]
   \<and> serialize_arguments deferring_env find_thing_signature [(''id'', JInt 1), (''thing'', JNull)]
     = Inl (OtherException ''ConfigError'')"
proof -
  have fields: "create_fields [id_parameter, nested_parameter]
      = Inr [(''id'', ClassToken ''int'', None),
             (''thing'', Generic ''Optional'' [ForwardRef ''RpcThing''], None)]"
    by (simp add: create_field_def validate_type_token_def is_str_def id_parameter_def
        nested_parameter_def)
  have accepts: "pydantic_create_model deferring_env defs = None" for defs
    by (simp add: deferring_env_def sample_env_def)
  have params: "tl (method_parameters find_thing) = [id_parameter, nested_parameter]"
    by (simp add: find_thing_def decorator_defs)
  have pm: "create_parameter_model deferring_env find_thing
      = Inr [(''id'', ClassToken ''int'', None),
             (''thing'', Generic ''Optional'' [ForwardRef ''RpcThing''], None)]"
    unfolding create_parameter_model_def Let_def params fields
    by (simp add: accepts)
  have rm: "create_return_model deferring_env find_thing = Inr None"
    by (simp add: create_return_model_def find_thing_def decorator_defs)
  have rr: "extract_region_resolution (ThingService find_thing) find_thing = Inr None"
    by (simp add: extract_region_resolution_def ThingService_def find_thing_def decorator_defs)
  have sg: "new_RpcMethodSignature deferring_env (ThingService find_thing) find_thing
      = Inr find_thing_signature"
    by (simp add: new_RpcMethodSignature_def pm rm rr find_thing_signature_def)
  have rpc: "get_all_rpc_methods (ThingService find_thing) = [find_thing]"
    by (simp add: get_all_rpc_methods_def ThingService_def find_thing_def decorator_defs)
  have name: "method_name find_thing = ''find_thing''"
    by (simp add: find_thing_def decorator_defs)
  have attrs: "cls_key (ThingService find_thing) = Some ''thing''"
    "cls_local_mode (ThingService find_thing) = Some CONTROL"
    by (simp_all add: ThingService_def)
  have built: "init_subclass deferring_env (ThingService find_thing)
      = Inr [''find_thing'' \<mapsto> find_thing_signature]"
    by (simp add: init_subclass_def has_rpc_methods_def create_signatures_def rpc sg name attrs)
  have late: "serialize_arguments deferring_env find_thing_signature
      [(''id'', JInt 1), (''thing'', JNull)] = Inl (OtherException ''ConfigError'')"
    by (simp add: serialize_arguments_def deferring_env_def find_thing_signature_def)
  show ?thesis using built late by simp
qed









end
